theory Spec2Isabelle
  imports Main
begin

section \<open>The command line front end of the F' ground data system\<close>

text \<open>
  This theory embeds \<^verbatim>\<open>src/fprime_gds/executables/fprime_cli.py\<close>: the shared
  argument groups, the dictionary resolver, the three subcommand injectors with their
  validation, the completer of the command name and the root dispatcher.

  Python objects that the code mutates (\<^verbatim>\<open>argparse.Namespace\<close>) live in an explicit
  heap, so that \<^verbatim>\<open>deepcopy\<close> and attribute assignment can be told apart. Exceptions
  are values of a sum type, and everything the process emits is appended to a trace.
\<close>

subsection \<open>Values, exceptions and the world\<close>

text \<open>The three subclasses of \<^verbatim>\<open>CliSubparserInjectorBase\<close>.\<close>

datatype injector = Channels | CommandSend | Events

text \<open>
  The values an attribute of a namespace can hold. The two callables are the defaults
  that \<^verbatim>\<open>inject_subparser\<close> stores: \<^verbatim>\<open>func=cls.command_func\<close> and
  \<^verbatim>\<open>validate=cls.validate_args\<close>. \<^verbatim>\<open>PType\<close> is a class object such as
  \<^verbatim>\<open>str\<close>, and \<^verbatim>\<open>PCompleter\<close> is \<^verbatim>\<open>cls.complete_command_name\<close>.
\<close>

datatype pyval =
    PNone
  | PBool bool
  | PInt int
  | PStr string
  | PList "pyval list"
  | PType string
  | PCompleter
  | PCommandFunc injector
  | PValidateArgs injector

text \<open>Python's truth value of an object, as \<^verbatim>\<open>not\<close> and \<^verbatim>\<open>or\<close> test it.\<close>

fun truthy :: "pyval \<Rightarrow> bool" where
  "truthy PNone = False"
| "truthy (PBool b) = b"
| "truthy (PInt i) = (i \<noteq> 0)"
| "truthy (PStr s) = (s \<noteq> [])"
| "truthy (PList xs) = (xs \<noteq> [])"
| "truthy (PType _) = True"
| "truthy PCompleter = True"
| "truthy (PCommandFunc _) = True"
| "truthy (PValidateArgs _) = True"

text \<open>
  The exceptions of the model. \<^verbatim>\<open>SystemExit\<close> carries the exit status of the
  process; \<^verbatim>\<open>Raised\<close> stands for whatever an external collaborator raises.
\<close>

datatype exn =
    SystemExit int
  | AttributeError string
  | IndexError
  | TypeError
  | ValueError
  | Raised string

text \<open>
  What the process emits or hands to a collaborator, in order: the help text of the root
  parser, the message of \<^verbatim>\<open>parser.error\<close>, a warning of \<^verbatim>\<open>argcomplete.warn\<close>,
  the entry into the validation of a subcommand, and the call of the handler of a subcommand.
\<close>

datatype event =
    HelpPrinted
  | ErrorPrinted string
  | Warned string
  | ValidateEntered injector
  | HandlerCalled injector

type_synonym namespace = "string \<rightharpoonup> pyval"

type_synonym addr = nat

text \<open>
  The world: the heap of namespace objects (a reference is an index into it), the current
  working directory that \<^verbatim>\<open>os.getcwd()\<close> reads, and the trace.
\<close>

record world =
  heap :: "namespace list"
  cwd :: string
  trace :: "event list"

definition emit :: "world \<Rightarrow> event \<Rightarrow> world" where
  "emit w e = w\<lparr>trace := trace w @ [e]\<rparr>"

text \<open>\<^verbatim>\<open>Namespace(**kwargs)\<close>: a new object at a fresh address.\<close>

definition alloc :: "world \<Rightarrow> namespace \<Rightarrow> world \<times> addr" where
  "alloc w ns = (w\<lparr>heap := heap w @ [ns]\<rparr>, length (heap w))"

text \<open>
  \<^verbatim>\<open>deepcopy(x)\<close> of a namespace: a new object with the same attributes. The values
  of the model hold no reference, so the copy shares nothing with the original.
\<close>

definition deepcopy :: "world \<Rightarrow> addr \<Rightarrow> world \<times> addr" where
  "deepcopy w a = alloc w (heap w ! a)"

definition hasattr :: "world \<Rightarrow> addr \<Rightarrow> string \<Rightarrow> bool" where
  "hasattr w a k = ((heap w ! a) k \<noteq> None)"

text \<open>Reading an attribute that the object does not have raises \<^verbatim>\<open>AttributeError\<close>.\<close>

definition getattr :: "world \<Rightarrow> addr \<Rightarrow> string \<Rightarrow> exn + pyval" where
  "getattr w a k = (case (heap w ! a) k of None \<Rightarrow> Inl (AttributeError k) | Some v \<Rightarrow> Inr v)"

definition setattr :: "world \<Rightarrow> addr \<Rightarrow> string \<Rightarrow> pyval \<Rightarrow> world" where
  "setattr w a k v = w\<lparr>heap := (heap w)[a := (heap w ! a)(k \<mapsto> v)]\<rparr>"

subsection \<open>The dictionary resolver\<close>

text \<open>
  \<^verbatim>\<open>
  def get_dictionary_path(current_args):
      args = deepcopy(current_args)
      if not hasattr(args, "dictionary"):
          args.dictionary = None
      args.deploy = os.getcwd()
      args.config = None
      return args.dictionary
  \<close>
\<close>

definition get_dictionary_path :: "world \<Rightarrow> addr \<Rightarrow> world \<times> (exn + pyval)" where
  "get_dictionary_path w current_args =
     (let (w1, args) = deepcopy w current_args;
          w2 = (if \<not> hasattr w1 args ''dictionary''
                then setattr w1 args ''dictionary'' PNone else w1);
          w3 = setattr w2 args ''deploy'' (PStr (cwd w2));
          w4 = setattr w3 args ''config'' PNone
      in (w4, getattr w4 args ''dictionary''))"

text \<open>
  \<^verbatim>\<open>
  def add_valid_dictionary(args):
      args.dictionary = get_dictionary_path(args)
      return args
  \<close>
\<close>

definition add_valid_dictionary :: "world \<Rightarrow> addr \<Rightarrow> world \<times> (exn + addr)" where
  "add_valid_dictionary w args =
     (case get_dictionary_path w args of
        (w1, Inl e) \<Rightarrow> (w1, Inl e)
      | (w1, Inr d) \<Rightarrow> (setattr w1 args ''dictionary'' d, Inr args))"

subsection \<open>Parsers and the shared argument groups\<close>

text \<open>
  An argument specifier is the tuple of flags of one option; its configuration is the
  keyword arguments of \<^verbatim>\<open>add_argument\<close>. A table of arguments is what
  \<^verbatim>\<open>get_arguments()\<close> returns: a dict, read in insertion order.
\<close>

type_synonym specifier = "string list"

type_synonym kwargs = "(string \<times> pyval) list"

type_synonym arguments = "(specifier \<times> kwargs) list"

record argument_group =
  title :: string
  actions :: arguments

text \<open>
  The parser of one subcommand: what was registered on it, directly and through its
  argument groups, and the defaults of \<^verbatim>\<open>set_defaults\<close>.
\<close>

record parser =
  description :: string
  own_actions :: arguments
  groups :: "argument_group list"
  defaults :: "(string \<times> pyval) list"

text \<open>The top-level parser, with the subcommands of \<^verbatim>\<open>add_subparsers(dest="func")\<close>.\<close>

record root_parser =
  root_description :: string
  version :: string
  subcommands :: "(string \<times> parser) list"

text \<open>
  The module \<^verbatim>\<open>fprime_gds.executables.cli\<close> is imported by the source and is not
  part of it, so the tables of its three parsers are parameters of the model:
  \<^verbatim>\<open>StandardPipelineParser().get_arguments()\<close>,
  \<^verbatim>\<open>SearchArgumentsParser(command_name).get_arguments()\<close> and
  \<^verbatim>\<open>RetrievalArgumentsParser(command_name).get_arguments()\<close>.
\<close>

record cli_tables =
  StandardPipelineParser :: arguments
  SearchArgumentsParser :: "string \<Rightarrow> arguments"
  RetrievalArgumentsParser :: "string \<Rightarrow> arguments"

text \<open>
  \<^verbatim>\<open>group.add_argument(*arg, **kwargs)\<close> and \<^verbatim>\<open>parser.add_argument(...)\<close> record
  the registration. The checks that argparse itself makes on a registration are those
  of the library and are not part of the model.
\<close>

definition add_argument :: "argument_group \<Rightarrow> specifier \<Rightarrow> kwargs \<Rightarrow> argument_group" where
  "add_argument g arg kw = g\<lparr>actions := actions g @ [(arg, kw)]\<rparr>"

definition parser_add_argument :: "parser \<Rightarrow> specifier \<Rightarrow> kwargs \<Rightarrow> parser" where
  "parser_add_argument p arg kw = p\<lparr>own_actions := own_actions p @ [(arg, kw)]\<rparr>"

definition new_group :: "string \<Rightarrow> argument_group" where
  "new_group t = \<lparr>title = t, actions = []\<rparr>"

text \<open>
  \<^verbatim>\<open>parser.add_argument_group(title)\<close> creates a group that the parser owns; the
  model builds the group and attaches it with everything registered on it.
\<close>

definition attach_group :: "parser \<Rightarrow> argument_group \<Rightarrow> parser" where
  "attach_group p g = p\<lparr>groups := groups p @ [g]\<rparr>"

text \<open>
  \<^verbatim>\<open>
  for arg, kwargs in pipeline_parser_args.items():
      pipeline_parser.add_argument(*arg, **kwargs)
  \<close>
\<close>

fun add_each :: "arguments \<Rightarrow> argument_group \<Rightarrow> argument_group" where
  "add_each [] g = g"
| "add_each ((arg, kw) # rest) g = add_each rest (add_argument g arg kw)"

definition add_connection_arguments :: "cli_tables \<Rightarrow> parser \<Rightarrow> parser" where
  "add_connection_arguments T p =
     (let pipeline_parser_args = StandardPipelineParser T;
          pipeline_parser = new_group ''GDS Options''
      in attach_group p (add_each pipeline_parser_args pipeline_parser))"

text \<open>
  \<^verbatim>\<open>
  for arg, kwargs in retrieval_parser_args.items():
      if arg[0] not in exclude:
          retrieval_parser.add_argument(*arg, **kwargs)
  \<close>
  \<^verbatim>\<open>arg[0]\<close> of an empty tuple raises \<^verbatim>\<open>IndexError\<close>.
\<close>

fun add_unless_excluded :: "string list \<Rightarrow> arguments \<Rightarrow> argument_group \<Rightarrow> exn + argument_group" where
  "add_unless_excluded exclude [] g = Inr g"
| "add_unless_excluded exclude ((arg, kw) # rest) g =
     (case arg of
        [] \<Rightarrow> Inl IndexError
      | arg0 # _ \<Rightarrow>
          if arg0 \<notin> set exclude
          then add_unless_excluded exclude rest (add_argument g arg kw)
          else add_unless_excluded exclude rest g)"

definition add_retrieval_arguments ::
    "cli_tables \<Rightarrow> parser \<Rightarrow> string \<Rightarrow> string list option \<Rightarrow> exn + parser" where
  "add_retrieval_arguments T p command_name exclude =
     (let exclude1 = (case exclude of None \<Rightarrow> [] | Some xs \<Rightarrow> xs);
          retrieval_parser_args = RetrievalArgumentsParser T command_name;
          retrieval_parser = new_group ''Retrieval Options''
      in case add_unless_excluded exclude1 retrieval_parser_args retrieval_parser of
           Inl e \<Rightarrow> Inl e
         | Inr g \<Rightarrow> Inr (attach_group p g))"

definition add_search_arguments :: "cli_tables \<Rightarrow> parser \<Rightarrow> string \<Rightarrow> parser" where
  "add_search_arguments T p command_name =
     (let search_parser_args = SearchArgumentsParser T command_name;
          search_parser = new_group ''Search/Filtering Options''
      in attach_group p (add_each search_parser_args search_parser))"

subsection \<open>The subcommand injectors\<close>

text \<open>\<^verbatim>\<open>parent_parser.add_parser(name, description=...)\<close> of each injector.\<close>

fun subcommand_name :: "injector \<Rightarrow> string" where
  "subcommand_name Channels = ''channels''"
| "subcommand_name CommandSend = ''command-send''"
| "subcommand_name Events = ''events''"

fun create_subparser :: "injector \<Rightarrow> parser" where
  "create_subparser Channels =
     \<lparr>description = ''print out new telemetry data that has been received from the F Prime instance, sorted by timestamp'',
      own_actions = [], groups = [], defaults = []\<rparr>"
| "create_subparser CommandSend =
     \<lparr>description = ''sends the given command to the spacecraft via the GDS'',
      own_actions = [], groups = [], defaults = []\<rparr>"
| "create_subparser Events =
     \<lparr>description = ''print out new events that have occurred on the F Prime instance, sorted by timestamp'',
      own_actions = [], groups = [], defaults = []\<rparr>"

text \<open>
  \<^verbatim>\<open>add_arguments\<close> of the three injectors. The completer that the source attaches
  to the action of \<^verbatim>\<open>command_name\<close> is kept with its keyword arguments.
\<close>

fun add_arguments :: "injector \<Rightarrow> cli_tables \<Rightarrow> parser \<Rightarrow> exn + parser" where
  "add_arguments Channels T p =
     (let p1 = add_connection_arguments T p;
          p2 = add_search_arguments T p1 ''channels''
      in add_retrieval_arguments T p2 ''channels'' None)"
| "add_arguments CommandSend T p =
     (let p1 = add_connection_arguments T p;
          p2 = parser_add_argument p1 [''command_name'']
                 [(''help'', PStr ''the full name of the command you want to execute in <component>.<name> form''),
                  (''nargs'', PStr ''?''),
                  (''metavar'', PStr ''command-name''),
                  (''completer'', PCompleter)];
          p3 = parser_add_argument p2 [''--arguments'']
                 [(''nargs'', PStr ''*''),
                  (''type'', PType ''str''),
                  (''default'', PList []),
                  (''help'', PStr ''provide a space-separated set of arguments to the command being sent'')];
          p4 = add_search_arguments T p3 ''commands''
      in add_retrieval_arguments T p4 ''commands'' (Some [''-t'', ''--timeout'']))"
| "add_arguments Events T p =
     (let p1 = add_connection_arguments T p;
          p2 = add_search_arguments T p1 ''events''
      in add_retrieval_arguments T p2 ''events'' None)"

text \<open>
  \<^verbatim>\<open>parser.error(message)\<close> prints the usage and the message and exits with
  status 2: it never returns.
\<close>

definition parser_error :: "world \<Rightarrow> root_parser \<Rightarrow> string \<Rightarrow> world \<times> (exn + addr)" where
  "parser_error w parser message = (emit w (ErrorPrinted message), Inl (SystemExit 2))"

text \<open>
  \<^verbatim>\<open>
  def validate_args(cls, parser, args):
      try:
          args = add_valid_dictionary(args)
      except ValueError:
          parser.error("No valid project dictionary found")
      return args
  \<close>
\<close>

definition base_validate_args :: "world \<Rightarrow> root_parser \<Rightarrow> addr \<Rightarrow> world \<times> (exn + addr)" where
  "base_validate_args w parser args =
     (case add_valid_dictionary w args of
        (w1, Inl ValueError) \<Rightarrow> parser_error w1 parser ''No valid project dictionary found''
      | (w1, Inl e) \<Rightarrow> (w1, Inl e)
      | (w1, Inr args1) \<Rightarrow> (w1, Inr args1))"

text \<open>
  \<^verbatim>\<open>
  def validate_args(cls, parser, args):
      if not (args.command_name or args.is_printing_list):
          parser.error("One of command-name or --list is required")
      args = super().validate_args(parser, args)
      return args
  \<close>
  \<^verbatim>\<open>or\<close> reads its second operand only when the first is false.
\<close>

definition command_validate_args :: "world \<Rightarrow> root_parser \<Rightarrow> addr \<Rightarrow> world \<times> (exn + addr)" where
  "command_validate_args w parser args =
     (case getattr w args ''command_name'' of
        Inl e \<Rightarrow> (w, Inl e)
      | Inr c \<Rightarrow>
          (case (if truthy c then Inr c else getattr w args ''is_printing_list'') of
             Inl e \<Rightarrow> (w, Inl e)
           | Inr v \<Rightarrow>
               if \<not> truthy v
               then parser_error w parser ''One of command-name or --list is required''
               else base_validate_args w parser args))"

text \<open>
  \<^verbatim>\<open>cls.validate_args\<close> of each injector: only \<^verbatim>\<open>CommandSubparserInjector\<close>
  overrides the method of the base class. The entry is written to the trace.
\<close>

fun validate_args :: "injector \<Rightarrow> world \<Rightarrow> root_parser \<Rightarrow> addr \<Rightarrow> world \<times> (exn + addr)" where
  "validate_args CommandSend w parser args =
     command_validate_args (emit w (ValidateEntered CommandSend)) parser args"
| "validate_args cls w parser args =
     base_validate_args (emit w (ValidateEntered cls)) parser args"

text \<open>
  \<^verbatim>\<open>cls.command_func\<close> imports the module of the subcommand and hands the arguments
  to its handler, which is outside this file: the model records the call.
\<close>

definition command_func :: "injector \<Rightarrow> world \<Rightarrow> addr \<Rightarrow> world \<times> (exn + unit)" where
  "command_func cls w parsed_args = (emit w (HandlerCalled cls), Inr ())"

subsection \<open>The completer of the command name\<close>

text \<open>\<^verbatim>\<open>name.startswith(prefix)\<close>.\<close>

fun startswith :: "string \<Rightarrow> string \<Rightarrow> bool" where
  "startswith name [] = True"
| "startswith [] (p # ps) = False"
| "startswith (c # cs) (p # ps) = (c = p \<and> startswith cs ps)"

text \<open>
  \<^verbatim>\<open>
  def complete_command_name(prefix, parsed_args, **kwargs):
      dict_path = ""
      try:
          dict_path = get_dictionary_path(parsed_args)
      except ValueError:
          argcomplete.warn("No dictionary found to get command names from")
          return []
      dictionary = Dictionaries()
      dictionary.load_dictionaries(dict_path, None)
      command_names = dictionary.command_name.keys()
      return [name for name in command_names if name.startswith(prefix)]
  \<close>
  The class \<^verbatim>\<open>Dictionaries\<close> is imported and not part of the source: the parameter
  \<open>load_dictionaries\<close> gives, for the two arguments of the call, either what loading
  raises or the keys of \<^verbatim>\<open>command_name\<close> in their order.
\<close>

definition complete_command_name ::
    "(pyval \<Rightarrow> pyval \<Rightarrow> exn + string list) \<Rightarrow> world \<Rightarrow> string \<Rightarrow> addr
      \<Rightarrow> world \<times> (exn + string list)" where
  "complete_command_name load_dictionaries w prefix parsed_args =
     (case get_dictionary_path w parsed_args of
        (w1, Inl ValueError) \<Rightarrow>
          (emit w1 (Warned ''No dictionary found to get command names from''), Inr [])
      | (w1, Inl e) \<Rightarrow> (w1, Inl e)
      | (w1, Inr dict_path) \<Rightarrow>
          (case load_dictionaries dict_path PNone of
             Inl e \<Rightarrow> (w1, Inl e)
           | Inr command_names \<Rightarrow>
               (w1, Inr (filter (\<lambda>name. startswith name prefix) command_names))))"

subsection \<open>The root dispatcher\<close>

text \<open>
  \<^verbatim>\<open>
  command_parser = cls.create_subparser(parent_parser)
  cls.add_arguments(command_parser)
  command_parser.set_defaults(func=cls.command_func, validate=cls.validate_args)
  \<close>
\<close>

definition inject_subparser :: "injector \<Rightarrow> cli_tables \<Rightarrow> root_parser \<Rightarrow> exn + root_parser" where
  "inject_subparser cls T parent_parser =
     (case add_arguments cls T (create_subparser cls) of
        Inl e \<Rightarrow> Inl e
      | Inr command_parser \<Rightarrow>
          Inr (parent_parser\<lparr>subcommands := subcommands parent_parser @
                 [(subcommand_name cls,
                   command_parser\<lparr>defaults := defaults command_parser @
                     [(''func'', PCommandFunc cls), (''validate'', PValidateArgs cls)]\<rparr>)]\<rparr>))"

text \<open>
  \<^verbatim>\<open>create_parser\<close>; the version of the installed distribution is a parameter.
\<close>

definition create_parser :: "cli_tables \<Rightarrow> string \<Rightarrow> exn + root_parser" where
  "create_parser T fprime_gds_version =
     (let parser = \<lparr>root_description =
                      ''provides utilities for interacting with the F' Ground Data System (GDS)'',
                    version = fprime_gds_version, subcommands = []\<rparr>
      in case inject_subparser Channels T parser of
           Inl e \<Rightarrow> Inl e
         | Inr p1 \<Rightarrow>
             (case inject_subparser CommandSend T p1 of
                Inl e \<Rightarrow> Inl e
              | Inr p2 \<Rightarrow> inject_subparser Events T p2))"

definition print_help :: "world \<Rightarrow> root_parser \<Rightarrow> world" where
  "print_help w parser = emit w HelpPrinted"

text \<open>Calling the value stored as \<^verbatim>\<open>args.validate\<close>, and the one stored as \<^verbatim>\<open>args.func\<close>.\<close>

fun call_validate :: "pyval \<Rightarrow> world \<Rightarrow> root_parser \<Rightarrow> addr \<Rightarrow> world \<times> (exn + addr)" where
  "call_validate (PValidateArgs cls) w parser args = validate_args cls w parser args"
| "call_validate v w parser args = (w, Inl TypeError)"

fun call_func :: "pyval \<Rightarrow> world \<Rightarrow> addr \<Rightarrow> world \<times> (exn + unit)" where
  "call_func (PCommandFunc cls) w args = command_func cls w args"
| "call_func v w args = (w, Inl TypeError)"

text \<open>
  \<^verbatim>\<open>
  def parse_args(parser, arguments):
      args = parser.parse_args(arguments)
      if not args.func:
          parser.print_help()
          sys.exit()
      args = args.validate(parser, args)
      return args
  \<close>
  \<^verbatim>\<open>parser.parse_args\<close> is the parsing of argparse, a parameter of the model: it
  exits, or it returns the attributes of a new namespace. With \<^verbatim>\<open>dest="func"\<close>
  argparse leaves \<^verbatim>\<open>func\<close> at \<^verbatim>\<open>None\<close> when no subcommand is selected.
  \<^verbatim>\<open>sys.exit()\<close> without an argument ends the process with status 0.
\<close>

definition parse_args ::
    "(root_parser \<Rightarrow> string list \<Rightarrow> exn + namespace) \<Rightarrow> world \<Rightarrow> root_parser \<Rightarrow> string list
      \<Rightarrow> world \<times> (exn + addr)" where
  "parse_args argparse w parser arguments =
     (case argparse parser arguments of
        Inl e \<Rightarrow> (w, Inl e)
      | Inr ns \<Rightarrow>
          (let (w1, args) = alloc w ns
           in case getattr w1 args ''func'' of
                Inl e \<Rightarrow> (w1, Inl e)
              | Inr f \<Rightarrow>
                  if \<not> truthy f
                  then (print_help w1 parser, Inl (SystemExit 0))
                  else (case getattr w1 args ''validate'' of
                          Inl e \<Rightarrow> (w1, Inl e)
                        | Inr v \<Rightarrow> call_validate v w1 parser args)))"

text \<open>
  \<^verbatim>\<open>
  def main():
      parser = create_parser()
      argcomplete.autocomplete(parser)
      args_ns = parse_args(parser, sys.argv[1:])
      function = args_ns.func
      function(args_ns)
  \<close>
  Outside a completion request of the shell \<^verbatim>\<open>argcomplete.autocomplete\<close> returns at
  once.
\<close>

definition main ::
    "(root_parser \<Rightarrow> string list \<Rightarrow> exn + namespace) \<Rightarrow> cli_tables \<Rightarrow> string \<Rightarrow> world
      \<Rightarrow> string list \<Rightarrow> world \<times> (exn + unit)" where
  "main argparse T fprime_gds_version w argv =
     (case create_parser T fprime_gds_version of
        Inl e \<Rightarrow> (w, Inl e)
      | Inr parser \<Rightarrow>
          (case parse_args argparse w parser argv of
             (w1, Inl e) \<Rightarrow> (w1, Inl e)
           | (w1, Inr args_ns) \<Rightarrow>
               (case getattr w1 args_ns ''func'' of
                  Inl e \<Rightarrow> (w1, Inl e)
                | Inr function \<Rightarrow> call_func function w1 args_ns)))"

text \<open>The value that the resolver computes from the attributes of its argument.\<close>

definition dictionary_of :: "namespace \<Rightarrow> pyval" where
  "dictionary_of ns = (case ns ''dictionary'' of None \<Rightarrow> PNone | Some v \<Rightarrow> v)"

subsection \<open>The resolver with the failures of its library calls\<close>

text \<open>
  The values of \<^typ>\<open>pyval\<close> are values that \<^verbatim>\<open>copy.deepcopy\<close> can copy, and the
  world of the sections above has a working directory. Two library calls of
  \<^verbatim>\<open>get_dictionary_path\<close> can raise: \<^verbatim>\<open>deepcopy\<close>, on an attribute value that it
  cannot copy (\<^verbatim>\<open>ValueError\<close> for a closed \<^verbatim>\<open>io.StringIO\<close>, \<^verbatim>\<open>TypeError\<close> for a
  lock), and \<^verbatim>\<open>os.getcwd()\<close>, in a directory that was removed
  (\<^verbatim>\<open>FileNotFoundError\<close>). This section embeds the resolver and its two callers once
  more, over objects that may hold such values and a working directory that may be gone.
  A namespace is here the list of its attributes, in the order of its \<^verbatim>\<open>__dict__\<close>,
  which is the order in which \<^verbatim>\<open>deepcopy\<close> copies them.
\<close>

datatype pyobj = Plain pyval | ClosedStringIO | Lock

type_synonym attributes = "(string \<times> pyobj) list"

record process =
  objects :: "attributes list"
  workdir :: "string option"
  emitted :: "event list"

definition emit_full :: "process \<Rightarrow> event \<Rightarrow> process" where
  "emit_full w e = w\<lparr>emitted := emitted w @ [e]\<rparr>"

fun deepcopy_value :: "pyobj \<Rightarrow> exn + pyobj" where
  "deepcopy_value (Plain v) = Inr (Plain v)"
| "deepcopy_value ClosedStringIO = Inl ValueError"
| "deepcopy_value Lock = Inl TypeError"

text \<open>The attributes are copied one after the other; the first failure ends the copy.\<close>

fun deepcopy_items :: "attributes \<Rightarrow> exn + attributes" where
  "deepcopy_items [] = Inr []"
| "deepcopy_items ((k, v) # rest) =
     (case deepcopy_value v of
        Inl e \<Rightarrow> Inl e
      | Inr v1 \<Rightarrow>
          (case deepcopy_items rest of
             Inl e \<Rightarrow> Inl e
           | Inr rest1 \<Rightarrow> Inr ((k, v1) # rest1)))"

definition deepcopy_full :: "process \<Rightarrow> addr \<Rightarrow> process \<times> (exn + addr)" where
  "deepcopy_full w a =
     (case deepcopy_items (objects w ! a) of
        Inl e \<Rightarrow> (w, Inl e)
      | Inr ns \<Rightarrow> (w\<lparr>objects := objects w @ [ns]\<rparr>, Inr (length (objects w))))"

definition getcwd :: "process \<Rightarrow> exn + string" where
  "getcwd w =
     (case workdir w of None \<Rightarrow> Inl (Raised ''FileNotFoundError'') | Some d \<Rightarrow> Inr d)"

definition hasattr_full :: "process \<Rightarrow> addr \<Rightarrow> string \<Rightarrow> bool" where
  "hasattr_full w a k = (map_of (objects w ! a) k \<noteq> None)"

definition getattr_full :: "process \<Rightarrow> addr \<Rightarrow> string \<Rightarrow> exn + pyobj" where
  "getattr_full w a k =
     (case map_of (objects w ! a) k of None \<Rightarrow> Inl (AttributeError k) | Some v \<Rightarrow> Inr v)"

text \<open>
  Assignment to an attribute replaces the value where the attribute exists and appends
  the attribute otherwise, as assignment to a key of a dict does.
\<close>

fun assign :: "string \<Rightarrow> pyobj \<Rightarrow> attributes \<Rightarrow> attributes" where
  "assign k v [] = [(k, v)]"
| "assign k v ((k1, v1) # rest) =
     (if k1 = k then (k, v) # rest else (k1, v1) # assign k v rest)"

definition setattr_full :: "process \<Rightarrow> addr \<Rightarrow> string \<Rightarrow> pyobj \<Rightarrow> process" where
  "setattr_full w a k v = w\<lparr>objects := (objects w)[a := assign k v (objects w ! a)]\<rparr>"

text \<open>
  \<^verbatim>\<open>get_dictionary_path\<close>, statement by statement as above: an exception of
  \<^verbatim>\<open>deepcopy\<close> or of \<^verbatim>\<open>os.getcwd()\<close> leaves the function at once.
\<close>

definition get_dictionary_path_full :: "process \<Rightarrow> addr \<Rightarrow> process \<times> (exn + pyobj)" where
  "get_dictionary_path_full w current_args =
     (case deepcopy_full w current_args of
        (w1, Inl e) \<Rightarrow> (w1, Inl e)
      | (w1, Inr args) \<Rightarrow>
          (let w2 = (if \<not> hasattr_full w1 args ''dictionary''
                     then setattr_full w1 args ''dictionary'' (Plain PNone) else w1)
           in case getcwd w2 of
                Inl e \<Rightarrow> (w2, Inl e)
              | Inr d \<Rightarrow>
                  (let w3 = setattr_full w2 args ''deploy'' (Plain (PStr d));
                       w4 = setattr_full w3 args ''config'' (Plain PNone)
                   in (w4, getattr_full w4 args ''dictionary''))))"

definition add_valid_dictionary_full :: "process \<Rightarrow> addr \<Rightarrow> process \<times> (exn + addr)" where
  "add_valid_dictionary_full w args =
     (case get_dictionary_path_full w args of
        (w1, Inl e) \<Rightarrow> (w1, Inl e)
      | (w1, Inr d) \<Rightarrow> (setattr_full w1 args ''dictionary'' d, Inr args))"

definition parser_error_full ::
    "process \<Rightarrow> root_parser \<Rightarrow> string \<Rightarrow> process \<times> (exn + addr)" where
  "parser_error_full w parser message = (emit_full w (ErrorPrinted message), Inl (SystemExit 2))"

text \<open>The default \<^verbatim>\<open>validate_args\<close> and the completer, with their \<^verbatim>\<open>except ValueError\<close>.\<close>

definition base_validate_args_full ::
    "process \<Rightarrow> root_parser \<Rightarrow> addr \<Rightarrow> process \<times> (exn + addr)" where
  "base_validate_args_full w parser args =
     (case add_valid_dictionary_full w args of
        (w1, Inl ValueError) \<Rightarrow> parser_error_full w1 parser ''No valid project dictionary found''
      | (w1, Inl e) \<Rightarrow> (w1, Inl e)
      | (w1, Inr args1) \<Rightarrow> (w1, Inr args1))"

definition complete_command_name_full ::
    "(pyobj \<Rightarrow> pyval \<Rightarrow> exn + string list) \<Rightarrow> process \<Rightarrow> string \<Rightarrow> addr
      \<Rightarrow> process \<times> (exn + string list)" where
  "complete_command_name_full load_dictionaries w prefix parsed_args =
     (case get_dictionary_path_full w parsed_args of
        (w1, Inl ValueError) \<Rightarrow>
          (emit_full w1 (Warned ''No dictionary found to get command names from''), Inr [])
      | (w1, Inl e) \<Rightarrow> (w1, Inl e)
      | (w1, Inr dict_path) \<Rightarrow>
          (case load_dictionaries dict_path PNone of
             Inl e \<Rightarrow> (w1, Inl e)
           | Inr command_names \<Rightarrow>
               (w1, Inr (filter (\<lambda>name. startswith name prefix) command_names))))"

text \<open>
  The namespace of the sections above that a list of attributes stands for, when all its
  values can be copied.
\<close>

definition namespace_of :: "attributes \<Rightarrow> namespace" where
  "namespace_of ns k = (case map_of ns k of Some (Plain v) \<Rightarrow> Some v | _ \<Rightarrow> None)"

subsection \<open>Concrete inputs\<close>

text \<open>A world with one namespace object, at address 0, and nothing emitted so far.\<close>

definition world_of :: "namespace \<Rightarrow> world" where
  "world_of ns = \<lparr>heap = [ns], cwd = ''/home/user/deployment'', trace = []\<rparr>"

definition bare_parser :: root_parser where
  "bare_parser = \<lparr>root_description = ''provides utilities'', version = ''3.1.0'', subcommands = []\<rparr>"

text \<open>
  A loader in the manner of \<^verbatim>\<open>Dictionaries.load_dictionaries\<close>: it needs a path, and
  the dictionary it loads has three commands.
\<close>

definition load_rejecting_none :: "pyval \<Rightarrow> pyval \<Rightarrow> exn + string list" where
  "load_rejecting_none path packet_spec =
     (case path of
        PStr p \<Rightarrow> Inr [''EVENTS.CMD_A'', ''EVENTS.CMD_B'', ''OTHER.CMD_C'']
      | _ \<Rightarrow> Inl TypeError)"

text \<open>What \<^verbatim>\<open>command-send ""\<close> parses to: the command name is the empty string.\<close>

definition nameless_args :: namespace where
  "nameless_args = [''command_name'' \<mapsto> PStr [], ''is_printing_list'' \<mapsto> PBool False]"

definition example_tables :: cli_tables where
  "example_tables =
     \<lparr>StandardPipelineParser =
        [([''--dictionary''], [(''help'', PStr ''path to the dictionary'')])],
      SearchArgumentsParser = (\<lambda>command_name.
        [([''-l'', ''--list''],
          [(''dest'', PStr ''is_printing_list''), (''action'', PStr ''store_true'')])]),
      RetrievalArgumentsParser = (\<lambda>command_name.
        [([''-t'', ''--timeout''], [(''type'', PType ''float'')]),
         ([''-j'', ''--json''], [(''action'', PStr ''store_true'')])])\<rparr>"

definition example_root :: root_parser where
  "example_root =
     (case create_parser example_tables ''3.1.0'' of Inl e \<Rightarrow> bare_parser | Inr p \<Rightarrow> p)"

text \<open>The parsing of an empty argument list: no subcommand, so \<^verbatim>\<open>func\<close> is \<^verbatim>\<open>None\<close>.\<close>

definition parse_nothing :: "root_parser \<Rightarrow> string list \<Rightarrow> exn + namespace" where
  "parse_nothing p arguments =
     (if arguments = [] then Inr [''func'' \<mapsto> PNone] else Inl (SystemExit 2))"

text \<open>A retrieval table whose second option has \<^verbatim>\<open>--timeout\<close> as its long flag only.\<close>

definition capital_tables :: cli_tables where
  "capital_tables =
     \<lparr>StandardPipelineParser = [],
      SearchArgumentsParser = (\<lambda>command_name. []),
      RetrievalArgumentsParser = (\<lambda>command_name.
        [([''-t'', ''--time''], [(''type'', PType ''float'')]),
         ([''-T'', ''--timeout''], [(''type'', PType ''float'')])])\<rparr>"

definition supplied_args :: namespace where
  "supplied_args = [''dictionary'' \<mapsto> PStr ''dict.xml'', ''ids'' \<mapsto> PList [PInt 7]]"

text \<open>
  A process with one namespace object at address 0, in an existing working directory and
  in a removed one; arguments whose values can all be copied, and arguments that hold a
  closed \<^verbatim>\<open>io.StringIO\<close>.
\<close>

definition process_of :: "attributes \<Rightarrow> process" where
  "process_of ns = \<lparr>objects = [ns], workdir = Some ''/home/user/deployment'', emitted = []\<rparr>"

definition removed_directory :: "attributes \<Rightarrow> process" where
  "removed_directory ns = \<lparr>objects = [ns], workdir = None, emitted = []\<rparr>"

definition plain_args :: attributes where
  "plain_args = [(''dictionary'', Plain (PStr ''dict.xml'')), (''ids'', Plain (PList [PInt 7]))]"

definition stream_args :: attributes where
  "stream_args = [(''dictionary'', Plain (PStr ''dict.xml'')), (''log'', ClosedStringIO)]"

section \<open>Properties\<close>

subsection \<open>What the resolver and the validation compute\<close>

lemma get_dictionary_path_eq:
  assumes "a < length (heap w)"
  shows "get_dictionary_path w a =
    (w\<lparr>heap := heap w @ [(heap w ! a)(''dictionary'' \<mapsto> dictionary_of (heap w ! a),
          ''deploy'' \<mapsto> PStr (cwd w), ''config'' \<mapsto> PNone)]\<rparr>,
     Inr (dictionary_of (heap w ! a)))"
proof (cases "(heap w ! a) ''dictionary''")
  case None
  then show ?thesis
    by (simp add: get_dictionary_path_def deepcopy_def alloc_def hasattr_def setattr_def
        getattr_def dictionary_of_def nth_append)
next
  case (Some v)
  then have "(heap w ! a)(''dictionary'' \<mapsto> v) = heap w ! a"
    by (simp add: map_upd_triv)
  with Some show ?thesis
    by (simp add: get_dictionary_path_def deepcopy_def alloc_def hasattr_def setattr_def
        getattr_def dictionary_of_def nth_append)
qed

lemma add_valid_dictionary_eq:
  assumes "a < length (heap w)"
  shows "add_valid_dictionary w a =
    (w\<lparr>heap := (heap w)[a := (heap w ! a)(''dictionary'' \<mapsto> dictionary_of (heap w ! a))] @
          [(heap w ! a)(''dictionary'' \<mapsto> dictionary_of (heap w ! a),
          ''deploy'' \<mapsto> PStr (cwd w), ''config'' \<mapsto> PNone)]\<rparr>,
     Inr a)"
  using assms
  by (simp add: add_valid_dictionary_def get_dictionary_path_eq setattr_def nth_append
      list_update_append)

lemma base_validate_args_eq:
  assumes "a < length (heap w)"
  shows "base_validate_args w parser a =
    (w\<lparr>heap := (heap w)[a := (heap w ! a)(''dictionary'' \<mapsto> dictionary_of (heap w ! a))] @
          [(heap w ! a)(''dictionary'' \<mapsto> dictionary_of (heap w ! a),
          ''deploy'' \<mapsto> PStr (cwd w), ''config'' \<mapsto> PNone)]\<rparr>,
     Inr a)"
  using assms by (simp add: base_validate_args_def add_valid_dictionary_eq)

lemma complete_command_name_eq:
  assumes "a < length (heap w)"
  shows "complete_command_name load w pre a =
    (fst (get_dictionary_path w a),
     case load (dictionary_of (heap w ! a)) PNone of
       Inl e \<Rightarrow> Inl e
     | Inr command_names \<Rightarrow> Inr (filter (\<lambda>name. startswith name pre) command_names))"
  using assms
  by (simp add: complete_command_name_def get_dictionary_path_eq split: sum.splits)

lemma startswith_iff: "startswith name p \<longleftrightarrow> (\<exists>rest. name = p @ rest)"
  by (induction name p rule: startswith.induct) auto

lemma command_validate_args_cases:
  "command_validate_args w parser a = base_validate_args w parser a
   \<or> (\<exists>e w1. command_validate_args w parser a = (w1, Inl e) \<and> heap w1 = heap w)"
  by (auto simp add: command_validate_args_def parser_error_def emit_def split: sum.splits)

lemma validate_args_cases:
  "validate_args cls w parser a = base_validate_args (emit w (ValidateEntered cls)) parser a
   \<or> (\<exists>e w1. validate_args cls w parser a = (w1, Inl e) \<and> heap w1 = heap w)"
  using command_validate_args_cases [of "emit w (ValidateEntered CommandSend)" parser a]
  by (cases cls) (auto simp add: emit_def)

subsection \<open>What the argument groups register\<close>

lemma add_each_eq: "add_each tbl g = g\<lparr>actions := actions g @ tbl\<rparr>"
  by (induction tbl arbitrary: g) (auto simp add: add_argument_def)

lemma add_unless_excluded_eq:
  assumes "\<forall>(arg, kw) \<in> set tbl. arg \<noteq> []"
  shows "add_unless_excluded ex tbl g =
           Inr (g\<lparr>actions := actions g @ filter (\<lambda>(arg, kw). hd arg \<notin> set ex) tbl\<rparr>)"
  using assms
proof (induction tbl arbitrary: g)
  case Nil
  then show ?case by simp
next
  case (Cons x tbl)
  obtain arg kw where x: "x = (arg, kw)" by (cases x)
  with Cons.prems obtain arg0 rest where arg: "arg = arg0 # rest"
    by (cases arg) auto
  from Cons.prems have "\<forall>(arg, kw) \<in> set tbl. arg \<noteq> []" by simp
  then show ?case
    using x arg by (simp add: Cons.IH add_argument_def)
qed

lemma add_retrieval_arguments_eq:
  assumes "\<forall>(arg, kw) \<in> set (RetrievalArgumentsParser T command_name). arg \<noteq> []"
  shows "add_retrieval_arguments T p command_name exclude =
           Inr (p\<lparr>groups := groups p @
                 [\<lparr>title = ''Retrieval Options'',
                   actions = filter (\<lambda>(arg, kw). hd arg \<notin> set (case exclude of None \<Rightarrow> [] | Some xs \<Rightarrow> xs))
                               (RetrievalArgumentsParser T command_name)\<rparr>]\<rparr>)"
  using assms
  by (simp add: add_retrieval_arguments_def add_unless_excluded_eq new_group_def attach_group_def)

lemma nonempty_specifiers:
  "\<forall>command_name. \<forall>(arg, kw) \<in> set (RetrievalArgumentsParser T command_name). arg \<noteq> []
   \<Longrightarrow> \<forall>(arg, kw) \<in> set (RetrievalArgumentsParser T c). arg \<noteq> []"
  by blast

lemma create_parser_example: "create_parser example_tables ''3.1.0'' = Inr example_root"
  by (simp add: example_root_def create_parser_def inject_subparser_def example_tables_def
      add_retrieval_arguments_def add_search_arguments_def add_connection_arguments_def
      new_group_def attach_group_def add_argument_def parser_add_argument_def)

subsection \<open>The resolver with the failures of its library calls\<close>

lemma map_of_assign: "map_of (assign k v ns) = (map_of ns)(k \<mapsto> v)"
  by (induction ns) (auto simp add: fun_eq_iff)

lemma deepcopy_items_same: "deepcopy_items ns = Inr ns1 \<Longrightarrow> ns1 = ns"
proof (induction ns arbitrary: ns1)
  case Nil
  then show ?case by simp
next
  case (Cons x ns)
  obtain k v where x: "x = (k, v)" by (cases x)
  show ?case
    using Cons.prems Cons.IH x
    by (cases v) (auto split: sum.splits)
qed

lemma deepcopy_items_plain:
  "deepcopy_items ns = Inr ns1 \<Longrightarrow> (k, v) \<in> set ns \<Longrightarrow> \<exists>p. v = Plain p"
proof (induction ns arbitrary: ns1)
  case Nil
  then show ?case by simp
next
  case (Cons x ns)
  obtain k1 v1 where x: "x = (k1, v1)" by (cases x)
  show ?case
    using Cons.prems Cons.IH x
    by (cases v1) (auto split: sum.splits)
qed

lemma get_dictionary_path_full_result:
  assumes "a < length (objects w)"
  shows "snd (get_dictionary_path_full w a) =
    (case deepcopy_items (objects w ! a) of
       Inl e \<Rightarrow> Inl e
     | Inr ns \<Rightarrow>
         (case workdir w of
            None \<Rightarrow> Inl (Raised ''FileNotFoundError'')
          | Some d \<Rightarrow> Inr (case map_of (objects w ! a) ''dictionary'' of
                                None \<Rightarrow> Plain PNone | Some v \<Rightarrow> v)))"
proof (cases "deepcopy_items (objects w ! a)")
  case (Inl e)
  then show ?thesis
    by (simp add: get_dictionary_path_full_def deepcopy_full_def)
next
  case (Inr ns)
  then have ns: "ns = objects w ! a" by (rule deepcopy_items_same)
  show ?thesis
    using Inr ns
    by (auto simp add: get_dictionary_path_full_def deepcopy_full_def hasattr_full_def
        setattr_full_def getattr_full_def getcwd_def map_of_assign nth_append Let_def
        split: option.splits)
qed

lemma get_dictionary_path_full_objects:
  assumes "a < length (objects w)"
  shows "take (length (objects w)) (objects (fst (get_dictionary_path_full w a))) = objects w
       \<and> emitted (fst (get_dictionary_path_full w a)) = emitted w"
  using assms
  by (auto simp add: get_dictionary_path_full_def deepcopy_full_def hasattr_full_def
      setattr_full_def getattr_full_def getcwd_def Let_def
      split: option.splits sum.splits)

lemma base_validate_args_full_cases:
  assumes "get_dictionary_path_full w a = (w1, r)"
  shows "base_validate_args_full w parser a =
    (case r of
       Inl e \<Rightarrow> (if e = ValueError
                  then (emit_full w1 (ErrorPrinted ''No valid project dictionary found''),
                        Inl (SystemExit 2))
                  else (w1, Inl e))
     | Inr d \<Rightarrow> (setattr_full w1 a ''dictionary'' d, Inr a))"
  using assms
  by (auto simp add: base_validate_args_full_def add_valid_dictionary_full_def
      parser_error_full_def split: sum.splits exn.splits)

lemma complete_command_name_full_cases:
  assumes "get_dictionary_path_full w a = (w1, r)"
  shows "complete_command_name_full load w pre a =
    (case r of
       Inl e \<Rightarrow> (if e = ValueError
                  then (emit_full w1 (Warned ''No dictionary found to get command names from''),
                        Inr [])
                  else (w1, Inl e))
     | Inr d \<Rightarrow>
         (case load d PNone of
            Inl e \<Rightarrow> (w1, Inl e)
          | Inr command_names \<Rightarrow>
              (w1, Inr (filter (\<lambda>name. startswith name pre) command_names))))"
  using assms
  by (auto simp add: complete_command_name_full_def split: sum.splits exn.splits)

text \<open>
  Where \<^verbatim>\<open>deepcopy\<close> can copy every value and the working directory exists, the
  resolver of this section returns what \<^const>\<open>get_dictionary_path\<close> returns.
\<close>

lemma resolvers_agree:
  assumes "a < length (objects w)" and "a < length (heap W)"
    and "deepcopy_items (objects w ! a) = Inr (objects w ! a)"
    and "workdir w = Some d"
    and "heap W ! a = namespace_of (objects w ! a)"
  shows "snd (get_dictionary_path_full w a) =
           (case snd (get_dictionary_path W a) of Inl e \<Rightarrow> Inl e | Inr v \<Rightarrow> Inr (Plain v))"
proof (cases "map_of (objects w ! a) ''dictionary''")
  case None
  then show ?thesis
    using assms
    by (simp add: get_dictionary_path_full_result get_dictionary_path_eq dictionary_of_def
        namespace_of_def)
next
  case (Some v)
  then have "(''dictionary'', v) \<in> set (objects w ! a)" by (rule map_of_SomeD)
  with assms(3) obtain p where "v = Plain p" by (blast dest: deepcopy_items_plain)
  with Some show ?thesis
    using assms
    by (simp add: get_dictionary_path_full_result get_dictionary_path_eq dictionary_of_def
        namespace_of_def)
qed

section \<open>The claims\<close>

text \<open>
  C1. The resolver is specified to return an explicit dictionary path unchanged, to search
  the working directory when the arguments carry none and to fail when nothing is found
  or when the path is not a valid dictionary. The code returns the attribute as it is
  and does nothing else: without the attribute the result is \<^verbatim>\<open>None\<close>, not a failure,
  and a path that names no file is returned unchecked; \<^verbatim>\<open>add_valid_dictionary\<close> then
  succeeds and stores \<^verbatim>\<open>None\<close> as the dictionary.
\<close>

theorem get_dictionary_path_nothing_to_find:
  "snd (get_dictionary_path (world_of Map.empty) 0) = Inr PNone
   \<and> snd (get_dictionary_path (world_of [''dictionary'' \<mapsto> PStr ''/no/such/file'']) 0)
       = Inr (PStr ''/no/such/file'')
   \<and> snd (add_valid_dictionary (world_of Map.empty) 0) = Inr 0
   \<and> (heap (fst (add_valid_dictionary (world_of Map.empty) 0)) ! 0) ''dictionary'' = Some PNone"
  by (simp add: get_dictionary_path_eq add_valid_dictionary_eq world_of_def dictionary_of_def)

text \<open>
  C2 (as amended). For arguments that carry \<^verbatim>\<open>command_name\<close> and
  \<^verbatim>\<open>is_printing_list\<close>, the validation of \<^verbatim>\<open>command-send\<close> prints the error and
  exits with status 2 exactly when both values are false in Python's sense (for the
  command name: \<^verbatim>\<open>None\<close> or the empty string); exactly when one of them is true it
  is the default validation, which succeeds and returns the same object.
\<close>

theorem command_validate_args_requires_name_or_list:
  assumes "a < length (heap w)"
    and "(heap w ! a) ''command_name'' = Some c"
    and "(heap w ! a) ''is_printing_list'' = Some l"
  shows "(command_validate_args w parser a =
            (emit w (ErrorPrinted ''One of command-name or --list is required''),
             Inl (SystemExit 2)))
           = (\<not> truthy c \<and> \<not> truthy l)
       \<and> (command_validate_args w parser a = base_validate_args w parser a
            \<and> snd (command_validate_args w parser a) = Inr a)
           = (truthy c \<or> truthy l)"
  using assms
  by (auto simp add: command_validate_args_def getattr_def parser_error_def
      base_validate_args_eq)

theorem command_validate_args_requires_name_or_list_witness:
  "0 < length (heap (world_of [''command_name'' \<mapsto> PNone, ''is_printing_list'' \<mapsto> PBool True]))
   \<and> (heap (world_of [''command_name'' \<mapsto> PNone, ''is_printing_list'' \<mapsto> PBool True]) ! 0)
        ''command_name'' = Some PNone
   \<and> (heap (world_of [''command_name'' \<mapsto> PNone, ''is_printing_list'' \<mapsto> PBool True]) ! 0)
        ''is_printing_list'' = Some (PBool True)
   \<and> snd (command_validate_args
             (world_of [''command_name'' \<mapsto> PNone, ''is_printing_list'' \<mapsto> PBool True])
             bare_parser 0) = Inr 0"
  using command_validate_args_requires_name_or_list
    [of 0 "world_of [''command_name'' \<mapsto> PNone, ''is_printing_list'' \<mapsto> PBool True]"
        PNone "PBool True" bare_parser]
  by (auto simp add: world_of_def)

text \<open>
  C2 as stated fails: with the empty string as command name and the list flag off, the
  command name is not absent, and the validation exits with status 2 all the same.
\<close>

theorem command_validate_args_empty_name_counterexample:
  "\<not> ((snd (command_validate_args (world_of nameless_args) bare_parser 0) = Inl (SystemExit 2))
        = ((heap (world_of nameless_args) ! 0) ''command_name'' = Some PNone
           \<and> (heap (world_of nameless_args) ! 0) ''is_printing_list'' = Some (PBool False)))"
  by (simp add: command_validate_args_def getattr_def parser_error_def world_of_def
      nameless_args_def)

text \<open>
  C3. When every specifier of the retrieval tables has a flag, \<^verbatim>\<open>add_arguments\<close>
  succeeds for the three subcommands and the group it adds last is the retrieval group.
  For \<^verbatim>\<open>command-send\<close> that group holds, in order and unchanged, the pairs of the
  table whose first flag is neither \<^verbatim>\<open>-t\<close> nor \<^verbatim>\<open>--timeout\<close>, so the timeout
  specifier is not among them; for \<^verbatim>\<open>channels\<close> and \<^verbatim>\<open>events\<close> it holds the
  whole table, the timeout specifier with it.
\<close>

theorem retrieval_arguments_by_subcommand:
  assumes "\<forall>command_name. \<forall>(arg, kw) \<in> set (RetrievalArgumentsParser T command_name). arg \<noteq> []"
  shows "(\<exists>p1. add_arguments CommandSend T p = Inr p1
            \<and> last (groups p1) =
                \<lparr>title = ''Retrieval Options'',
                 actions = filter (\<lambda>(arg, kw). hd arg \<notin> {''-t'', ''--timeout''})
                             (RetrievalArgumentsParser T ''commands'')\<rparr>
            \<and> [''-t'', ''--timeout''] \<notin> fst ` set (actions (last (groups p1))))
       \<and> (\<exists>p2. add_arguments Channels T p = Inr p2
            \<and> last (groups p2) =
                \<lparr>title = ''Retrieval Options'',
                 actions = RetrievalArgumentsParser T ''channels''\<rparr>)
       \<and> (\<exists>p3. add_arguments Events T p = Inr p3
            \<and> last (groups p3) =
                \<lparr>title = ''Retrieval Options'',
                 actions = RetrievalArgumentsParser T ''events''\<rparr>)"
proof -
  note ne = nonempty_specifiers [OF assms]
  have "[''-t'', ''--timeout''] \<notin> fst ` set (filter (\<lambda>(arg, kw). hd arg \<notin> {''-t'', ''--timeout''})
          (RetrievalArgumentsParser T ''commands''))"
    by auto
  then show ?thesis
    by (simp add: add_retrieval_arguments_eq [OF ne] Let_def)
qed

theorem retrieval_arguments_by_subcommand_witness:
  "(\<exists>p1. add_arguments CommandSend example_tables (create_subparser CommandSend) = Inr p1
      \<and> map fst (actions (last (groups p1))) = [[''-j'', ''--json'']])
   \<and> (\<exists>p2. add_arguments Channels example_tables (create_subparser CommandSend) = Inr p2
      \<and> map fst (actions (last (groups p2))) = [[''-t'', ''--timeout''], [''-j'', ''--json'']])
   \<and> (\<exists>p3. add_arguments Events example_tables (create_subparser CommandSend) = Inr p3
      \<and> map fst (actions (last (groups p3))) = [[''-t'', ''--timeout''], [''-j'', ''--json'']])"
proof -
  have ne: "\<forall>command_name.
      \<forall>(arg, kw) \<in> set (RetrievalArgumentsParser example_tables command_name). arg \<noteq> []"
    by (simp add: example_tables_def)
  have tbl: "RetrievalArgumentsParser example_tables c =
      [([''-t'', ''--timeout''], [(''type'', PType ''float'')]),
       ([''-j'', ''--json''], [(''action'', PStr ''store_true'')])]" for c
    by (simp add: example_tables_def)
  from retrieval_arguments_by_subcommand [OF ne, of "create_subparser CommandSend"]
  show ?thesis
    by (auto simp add: tbl simp del: add_arguments.simps)
qed

text \<open>
  C4. When the dictionary cannot be resolved the completer is specified to warn and to
  return no completion. The resolver does not fail for want of a dictionary, so the
  completer does not warn there: without a dictionary it hands \<^verbatim>\<open>None\<close> to the
  loader, and what the loader raises there leaves the completer.
\<close>

theorem complete_command_name_unresolved_dictionary:
  "snd (complete_command_name load_rejecting_none (world_of Map.empty) ''EV'' 0) = Inl TypeError
   \<and> trace (fst (complete_command_name load_rejecting_none (world_of Map.empty) ''EV'' 0)) = []"
  by (simp add: complete_command_name_eq get_dictionary_path_eq world_of_def dictionary_of_def
      load_rejecting_none_def)

text \<open>
  C5. When the parsing of the argument list selects no subcommand (argparse returns a
  namespace whose \<^verbatim>\<open>func\<close> is \<^verbatim>\<open>None\<close>), \<^verbatim>\<open>parse_args\<close> ends the process with
  status 0; the help text is the one thing added to the trace, so no validation was
  entered and no handler was called, and the new namespace is the one change of the heap.
  The same holds of \<^verbatim>\<open>main\<close> for the parser that \<^verbatim>\<open>create_parser\<close> builds.
\<close>

theorem parse_args_without_subcommand:
  assumes "argparse parser arguments = Inr ns"
    and "ns ''func'' = Some PNone"
  shows "snd (parse_args argparse w parser arguments) = Inl (SystemExit 0)
       \<and> trace (fst (parse_args argparse w parser arguments)) = trace w @ [HelpPrinted]
       \<and> heap (fst (parse_args argparse w parser arguments)) = heap w @ [ns]
       \<and> (create_parser T v = Inr parser \<longrightarrow>
            snd (main argparse T v w arguments) = Inl (SystemExit 0)
            \<and> trace (fst (main argparse T v w arguments)) = trace w @ [HelpPrinted])"
proof -
  have p: "parse_args argparse w parser arguments =
      (emit (w\<lparr>heap := heap w @ [ns]\<rparr>) HelpPrinted, Inl (SystemExit 0))"
    using assms
    by (simp add: parse_args_def alloc_def getattr_def print_help_def)
  then show ?thesis
    by (simp add: main_def emit_def)
qed

theorem parse_args_without_subcommand_witness:
  "parse_nothing example_root [] = Inr [''func'' \<mapsto> PNone]
   \<and> [''func'' \<mapsto> PNone] ''func'' = Some PNone
   \<and> snd (parse_args parse_nothing (world_of Map.empty) example_root []) = Inl (SystemExit 0)
   \<and> create_parser example_tables ''3.1.0'' = Inr example_root
   \<and> snd (main parse_nothing example_tables ''3.1.0'' (world_of Map.empty) []) = Inl (SystemExit 0)
   \<and> trace (fst (main parse_nothing example_tables ''3.1.0'' (world_of Map.empty) [])) = [HelpPrinted]"
  using parse_args_without_subcommand
    [of parse_nothing example_root "[]" "[''func'' \<mapsto> PNone]" "world_of Map.empty"
        example_tables "''3.1.0''"]
    create_parser_example
  by (simp add: parse_nothing_def world_of_def)

text \<open>
  C6. When loading the dictionary of the arguments succeeds, the completer returns the
  names of the index that begin with the prefix, in the order of the index; a name begins
  with the prefix when it is the prefix followed by some rest. For the prefix \<^verbatim>\<open>EV\<close> and
  the index \<^verbatim>\<open>EVENTS.CMD_A\<close>, \<^verbatim>\<open>EVENTS.CMD_B\<close>, \<^verbatim>\<open>OTHER.CMD_C\<close> it returns the first
  two.
\<close>

theorem complete_command_name_filters_index:
  assumes "a < length (heap w)"
    and "load (case (heap w ! a) ''dictionary'' of None \<Rightarrow> PNone | Some v \<Rightarrow> v) PNone
           = Inr command_names"
  shows "snd (complete_command_name load w pre a)
           = Inr (filter (\<lambda>name. startswith name pre) command_names)
       \<and> (\<forall>name. startswith name pre = (\<exists>rest. name = pre @ rest))
       \<and> snd (complete_command_name
                (\<lambda>path packet_spec. Inr [''EVENTS.CMD_A'', ''EVENTS.CMD_B'', ''OTHER.CMD_C''])
                w ''EV'' a)
           = Inr [''EVENTS.CMD_A'', ''EVENTS.CMD_B'']"
  using assms
  by (simp add: complete_command_name_eq dictionary_of_def startswith_iff [symmetric])

theorem complete_command_name_filters_index_witness:
  "0 < length (heap (world_of [''dictionary'' \<mapsto> PStr ''dict.xml'']))
   \<and> load_rejecting_none (PStr ''dict.xml'') PNone
        = Inr [''EVENTS.CMD_A'', ''EVENTS.CMD_B'', ''OTHER.CMD_C'']
   \<and> snd (complete_command_name load_rejecting_none
             (world_of [''dictionary'' \<mapsto> PStr ''dict.xml'']) ''OTHER'' 0)
        = Inr [''OTHER.CMD_C'']"
  using complete_command_name_filters_index
    [of 0 "world_of [''dictionary'' \<mapsto> PStr ''dict.xml'']" load_rejecting_none
        "[''EVENTS.CMD_A'', ''EVENTS.CMD_B'', ''OTHER.CMD_C'']" "''OTHER''"]
  by (simp add: world_of_def load_rejecting_none_def)

text \<open>
  C7. Dictionary resolution is idempotent: a second call on the same arguments, in the
  world that the first call left, returns what the first call returned.
\<close>

theorem get_dictionary_path_idempotent:
  assumes "a < length (heap w)"
  shows "snd (get_dictionary_path (fst (get_dictionary_path w a)) a) = snd (get_dictionary_path w a)"
  using assms by (simp add: get_dictionary_path_eq nth_append)

theorem get_dictionary_path_idempotent_witness:
  "0 < length (heap (world_of supplied_args))
   \<and> snd (get_dictionary_path (fst (get_dictionary_path (world_of supplied_args) 0)) 0)
       = Inr (PStr ''dict.xml'')
   \<and> snd (get_dictionary_path (world_of supplied_args) 0) = Inr (PStr ''dict.xml'')"
  using get_dictionary_path_idempotent [of 0 "world_of supplied_args"]
  by (simp add: world_of_def supplied_args_def get_dictionary_path_eq dictionary_of_def)

text \<open>
  C8. Validation never changes an argument that was supplied. The resolver leaves every
  object that existed before the call as it was: it writes to its copy only. The
  validation of each subcommand keeps every attribute that its argument had, adds no
  attribute but \<^verbatim>\<open>dictionary\<close>, and leaves the other objects alone; it either returns
  the same object with \<^verbatim>\<open>dictionary\<close> set to the value it had (\<^verbatim>\<open>None\<close> when it
  had none), or it rejects the input and has changed no object.
\<close>

theorem validation_keeps_supplied_arguments:
  assumes "a < length (heap w)"
  shows "take (length (heap w)) (heap (fst (get_dictionary_path w a))) = heap w
       \<and> (\<forall>k v. (heap w ! a) k = Some v \<longrightarrow>
             (heap (fst (validate_args cls w parser a)) ! a) k = Some v)
       \<and> (\<forall>k. k \<noteq> ''dictionary'' \<longrightarrow>
             (heap (fst (validate_args cls w parser a)) ! a) k = (heap w ! a) k)
       \<and> (\<forall>b. b < length (heap w) \<and> b \<noteq> a \<longrightarrow>
             heap (fst (validate_args cls w parser a)) ! b = heap w ! b)
       \<and> (snd (validate_args cls w parser a) = Inr a
            \<and> (heap (fst (validate_args cls w parser a)) ! a) ''dictionary''
                = Some (case (heap w ! a) ''dictionary'' of None \<Rightarrow> PNone | Some v \<Rightarrow> v)
          \<or> (\<exists>e. snd (validate_args cls w parser a) = Inl e)
            \<and> heap (fst (validate_args cls w parser a)) = heap w)"
proof -
  have g: "take (length (heap w)) (heap (fst (get_dictionary_path w a))) = heap w"
    using assms by (simp add: get_dictionary_path_eq)
  have a': "a < length (heap (emit w (ValidateEntered cls)))"
    using assms by (simp add: emit_def)
  have h: "heap (emit w (ValidateEntered cls)) = heap w"
    by (simp add: emit_def)
  from validate_args_cases [of cls w parser a] show ?thesis
  proof
    assume "validate_args cls w parser a = base_validate_args (emit w (ValidateEntered cls)) parser a"
    then show ?thesis
      using assms g
      by (auto simp add: base_validate_args_eq [OF a'] h nth_append dictionary_of_def
          split: option.splits)
  next
    assume "\<exists>e w1. validate_args cls w parser a = (w1, Inl e) \<and> heap w1 = heap w"
    then show ?thesis using g by auto
  qed
qed

theorem validation_keeps_supplied_arguments_witness:
  "0 < length (heap (world_of supplied_args))
   \<and> take 1 (heap (fst (get_dictionary_path (world_of supplied_args) 0))) = [supplied_args]
   \<and> snd (validate_args Channels (world_of supplied_args) bare_parser 0) = Inr 0
   \<and> (heap (fst (validate_args Channels (world_of supplied_args) bare_parser 0)) ! 0) ''dictionary''
       = Some (PStr ''dict.xml'')
   \<and> (heap (fst (validate_args Channels (world_of supplied_args) bare_parser 0)) ! 0) ''ids''
       = Some (PList [PInt 7])"
  using validation_keeps_supplied_arguments [of 0 "world_of supplied_args" Channels bare_parser]
  by (simp add: world_of_def supplied_args_def emit_def base_validate_args_eq dictionary_of_def)

text \<open>
  C9 (as amended). The resolver raises only what \<^verbatim>\<open>deepcopy\<close> or \<^verbatim>\<open>os.getcwd()\<close>
  raises. For every namespace whose attribute values \<^verbatim>\<open>deepcopy\<close> can copy, in a
  working directory that exists, it returns the \<^verbatim>\<open>dictionary\<close> attribute, or
  \<^verbatim>\<open>None\<close> when the attribute is absent; \<^verbatim>\<open>add_valid_dictionary\<close> and the default
  validation then succeed, and neither the default validation nor the completer emits
  anything. The resolver raises \<^verbatim>\<open>ValueError\<close> exactly when \<^verbatim>\<open>deepcopy\<close> does, and
  exactly then the branches that catch \<^verbatim>\<open>ValueError\<close> are taken: the default
  validation prints its error and the completer its warning.
\<close>

theorem get_dictionary_path_raises_what_library_raises:
  assumes "a < length (objects w)"
  shows "(deepcopy_items (objects w ! a) = Inr (objects w ! a) \<and> workdir w \<noteq> None \<longrightarrow>
            snd (get_dictionary_path_full w a) =
              Inr (case map_of (objects w ! a) ''dictionary'' of
                     None \<Rightarrow> Plain PNone | Some v \<Rightarrow> v)
          \<and> snd (add_valid_dictionary_full w a) = Inr a
          \<and> snd (base_validate_args_full w parser a) = Inr a
          \<and> emitted (fst (base_validate_args_full w parser a)) = emitted w
          \<and> emitted (fst (complete_command_name_full load w pre a)) = emitted w)
       \<and> (snd (get_dictionary_path_full w a) = Inl ValueError)
           = (deepcopy_items (objects w ! a) = Inl ValueError)
       \<and> (emitted (fst (base_validate_args_full w parser a))
            = emitted w @ [ErrorPrinted ''No valid project dictionary found''])
           = (deepcopy_items (objects w ! a) = Inl ValueError)
       \<and> (emitted (fst (complete_command_name_full load w pre a))
            = emitted w @ [Warned ''No dictionary found to get command names from''])
           = (deepcopy_items (objects w ! a) = Inl ValueError)"
proof -
  obtain w1 r where g: "get_dictionary_path_full w a = (w1, r)"
    by (cases "get_dictionary_path_full w a")
  have r: "r = (case deepcopy_items (objects w ! a) of
       Inl e \<Rightarrow> Inl e
     | Inr ns \<Rightarrow>
         (case workdir w of
            None \<Rightarrow> Inl (Raised ''FileNotFoundError'')
          | Some d \<Rightarrow> Inr (case map_of (objects w ! a) ''dictionary'' of
                                None \<Rightarrow> Plain PNone | Some v \<Rightarrow> v)))"
    using get_dictionary_path_full_result [OF assms] g by simp
  have e: "emitted w1 = emitted w"
    using get_dictionary_path_full_objects [OF assms] g by simp
  have v: "(r = Inl ValueError) = (deepcopy_items (objects w ! a) = Inl ValueError)"
    using r by (auto split: sum.splits option.splits)
  have b: "emitted (fst (base_validate_args_full w parser a)) =
      (if r = Inl ValueError
       then emitted w @ [ErrorPrinted ''No valid project dictionary found''] else emitted w)"
    using e
    by (auto simp add: base_validate_args_full_cases [OF g] emit_full_def setattr_full_def
        split: sum.splits)
  have c: "emitted (fst (complete_command_name_full load w pre a)) =
      (if r = Inl ValueError
       then emitted w @ [Warned ''No dictionary found to get command names from'']
       else emitted w)"
    using e
    by (auto simp add: complete_command_name_full_cases [OF g] emit_full_def
        split: sum.splits)
  have s: "snd (base_validate_args_full w parser a) =
      (case r of Inl e \<Rightarrow> (if e = ValueError then Inl (SystemExit 2) else Inl e)
       | Inr d \<Rightarrow> Inr a)"
    by (auto simp add: base_validate_args_full_cases [OF g] split: sum.splits)
  have d: "snd (add_valid_dictionary_full w a) = (case r of Inl e \<Rightarrow> Inl e | Inr d \<Rightarrow> Inr a)"
    using g by (auto simp add: add_valid_dictionary_full_def split: sum.splits)
  show ?thesis
    using g r v b c s d by (auto split: sum.splits option.splits)
qed

theorem get_dictionary_path_raises_what_library_raises_witness:
  "0 < length (objects (process_of plain_args))
   \<and> deepcopy_items (objects (process_of plain_args) ! 0) = Inr (objects (process_of plain_args) ! 0)
   \<and> workdir (process_of plain_args) \<noteq> None
   \<and> snd (get_dictionary_path_full (process_of plain_args) 0) = Inr (Plain (PStr ''dict.xml''))
   \<and> snd (base_validate_args_full (process_of plain_args) bare_parser 0) = Inr 0
   \<and> emitted (fst (complete_command_name_full (\<lambda>p s. Inr []) (process_of plain_args) ''EV'' 0)) = []"
  using get_dictionary_path_raises_what_library_raises
    [of 0 "process_of plain_args" bare_parser "\<lambda>p s. Inr []" "''EV''"]
  by (simp add: process_of_def plain_args_def)

text \<open>
  C9 as stated fails. With a closed \<^verbatim>\<open>io.StringIO\<close> among the arguments
  \<^verbatim>\<open>deepcopy\<close> raises \<^verbatim>\<open>ValueError\<close>: the resolver raises, the default validation
  takes its \<^verbatim>\<open>except ValueError\<close> branch, prints its error and exits with status 2,
  and the completer takes its own, warns and returns no completion. In a removed working
  directory the resolver raises \<^verbatim>\<open>FileNotFoundError\<close>.
\<close>

theorem get_dictionary_path_raises_counterexample:
  "snd (get_dictionary_path_full (process_of stream_args) 0) = Inl ValueError
   \<and> base_validate_args_full (process_of stream_args) bare_parser 0
       = (emit_full (process_of stream_args) (ErrorPrinted ''No valid project dictionary found''),
          Inl (SystemExit 2))
   \<and> complete_command_name_full (\<lambda>p s. Inr [''EVENTS.CMD_A'']) (process_of stream_args) ''EV'' 0
       = (emit_full (process_of stream_args)
            (Warned ''No dictionary found to get command names from''),
          Inr [])
   \<and> snd (get_dictionary_path_full (removed_directory plain_args) 0)
       = Inl (Raised ''FileNotFoundError'')"
  by (simp add: get_dictionary_path_full_def deepcopy_full_def base_validate_args_full_def
      add_valid_dictionary_full_def complete_command_name_full_def parser_error_full_def
      process_of_def removed_directory_def stream_args_def plain_args_def getcwd_def
      hasattr_full_def)

text \<open>
  C10. The exclusion of \<^verbatim>\<open>add_retrieval_arguments\<close> reads the first flag of a
  specifier only. When every specifier of the table has a flag, the call succeeds and
  adds one group, which holds, in order, the pairs of the table whose first flag is not in
  the exclude list: a pair of the table is registered exactly when its first flag is not
  listed, whatever its other flags are.
\<close>

theorem exclusion_reads_first_flag_only:
  assumes "\<forall>(arg, kw) \<in> set (RetrievalArgumentsParser T command_name). arg \<noteq> []"
  shows "\<exists>p1. add_retrieval_arguments T p command_name (Some exclude) = Inr p1
          \<and> groups p1 = groups p @ [last (groups p1)]
          \<and> actions (last (groups p1)) =
              filter (\<lambda>(arg, kw). hd arg \<notin> set exclude) (RetrievalArgumentsParser T command_name)
          \<and> (\<forall>(arg, kw) \<in> set (RetrievalArgumentsParser T command_name).
                ((arg, kw) \<in> set (actions (last (groups p1)))) = (hd arg \<notin> set exclude))"
  using assms by (auto simp add: add_retrieval_arguments_eq)

theorem exclusion_reads_first_flag_only_witness:
  "\<exists>p1. add_retrieval_arguments capital_tables (create_subparser CommandSend) ''commands''
           (Some [''-t'', ''--timeout'']) = Inr p1
        \<and> map fst (actions (last (groups p1))) = [[''-T'', ''--timeout'']]"
  using exclusion_reads_first_flag_only
    [of capital_tables "''commands''" "create_subparser CommandSend" "[''-t'', ''--timeout'']"]
  by (auto simp add: capital_tables_def)

end
